theory Spec2Isabelle
  imports Complex_Main
begin

section \<open>Text\<close>

text \<open>
  A Python \<open>str\<close> is a sequence of Unicode code points, so text is a list of
  code points (natural numbers). The literals of the source are written as \<open>py ''...''\<close>.
\<close>

type_synonym ustr = "nat list"

definition py :: "string \<Rightarrow> ustr" where
  "py s = map of_char s"

text \<open>
  The whitespace of \<open>str.split()\<close> and \<open>str.strip()\<close> without arguments: the code points
  on which \<open>str.isspace\<close> holds (all of them are listed).
\<close>

definition isspace :: "nat \<Rightarrow> bool" where
  "isspace c \<longleftrightarrow>
     (9 \<le> c \<and> c \<le> 13) \<or> (28 \<le> c \<and> c \<le> 32) \<or> c = 0x85 \<or> c = 0xA0 \<or> c = 0x1680
     \<or> (0x2000 \<le> c \<and> c \<le> 0x200A) \<or> c = 0x2028 \<or> c = 0x2029 \<or> c = 0x202F
     \<or> c = 0x205F \<or> c = 0x3000"

text \<open>
  The case tables that \<open>str.title()\<close> consults: whether a code point is cased, its
  title-case mapping and its lower-case mapping (a mapping may yield several code points).
  The tables are written out for the ASCII range and for the two code points U+0130
  (capital I with dot above) and U+0307 (combining dot above). Any other code point is
  treated as uncased and mapped to itself, which agrees with CPython only where the code
  point is uncased; the theorems about letter case are therefore stated for ASCII text
  (\<open>ascii_text\<close>) or evaluated on code points of the tables.
\<close>

definition ascii_text :: "ustr \<Rightarrow> bool" where
  "ascii_text s \<longleftrightarrow> list_all (\<lambda>c. c < 128) s"

definition iscased :: "nat \<Rightarrow> bool" where
  "iscased c \<longleftrightarrow> (65 \<le> c \<and> c \<le> 90) \<or> (97 \<le> c \<and> c \<le> 122) \<or> c = 0x130"

definition totitle_full :: "nat \<Rightarrow> ustr" where
  "totitle_full c = (if 97 \<le> c \<and> c \<le> 122 then [c - 32] else [c])"

definition tolower_full :: "nat \<Rightarrow> ustr" where
  "tolower_full c =
     (if 65 \<le> c \<and> c \<le> 90 then [c + 32]
      else if c = 0x130 then [0x69, 0x307]
      else [c])"

text \<open>
  \<open>str.split()\<close>: skip whitespace, then take the characters up to the next whitespace
  as one token, until the text ends.
\<close>

function str_split :: "ustr \<Rightarrow> ustr list" where
  "str_split s =
     (let r = dropWhile isspace s
      in if r = [] then []
         else takeWhile (\<lambda>c. \<not> isspace c) r # str_split (dropWhile (\<lambda>c. \<not> isspace c) r))"
  by pat_completeness auto
termination
proof (relation "measure length")
  show "wf (measure length)" by simp
next
  fix s r :: ustr
  assume r: "r = dropWhile isspace s" and ne: "r \<noteq> []"
  from ne obtain c cs where rc: "r = c # cs" by (cases r) auto
  with r have "\<not> isspace c" by (metis hd_dropWhile list.sel(1) ne)
  then have "length (dropWhile (\<lambda>c. \<not> isspace c) r) < length r"
    using rc by (simp add: le_imp_less_Suc length_dropWhile_le)
  moreover have "length r \<le> length s" using r by (simp add: length_dropWhile_le)
  ultimately show "(dropWhile (\<lambda>c. \<not> isspace c) r, s) \<in> measure length" by simp
qed

declare str_split.simps [simp del]

text \<open>\<open>sep.join(parts)\<close>.\<close>

fun str_join :: "ustr \<Rightarrow> ustr list \<Rightarrow> ustr" where
  "str_join sep [] = []"
| "str_join sep [x] = x"
| "str_join sep (x # y # ys) = x @ sep @ str_join sep (y # ys)"

text \<open>
  \<open>str.title()\<close>: one pass over the text that carries whether the previous character
  was cased; a character after a cased one is lower-cased, any other is title-cased.
\<close>

fun title_from :: "bool \<Rightarrow> ustr \<Rightarrow> ustr" where
  "title_from previous_is_cased [] = []"
| "title_from previous_is_cased (c # cs) =
     (if previous_is_cased then tolower_full c else totitle_full c) @ title_from (iscased c) cs"

definition str_title :: "ustr \<Rightarrow> ustr" where
  "str_title s = title_from False s"

text \<open>\<open>str.strip()\<close>: drop the whitespace at both ends.\<close>

definition str_strip :: "ustr \<Rightarrow> ustr" where
  "str_strip s = rev (dropWhile isspace (rev (dropWhile isspace s)))"

subsection \<open>The name normalizer\<close>

text \<open>
  \<open>clean_name(name)\<close>. The argument is \<open>None\<close> when the form has no such field; \<open>None\<close>
  and the empty text are the falsy arguments.
\<close>

definition clean_name :: "ustr option \<Rightarrow> ustr" where
  "clean_name name =
     (case name of
        None \<Rightarrow> []
      | Some s \<Rightarrow>
          if s = [] then []
          else let cleaned = str_join (py '' '') (str_split s) in str_title cleaned)"

text \<open>
  The reading of the normalizer that the theorems below compare \<open>clean_name\<close> with:
  the tokens of the text joined by single spaces, each token recased position by position.
  A letter is upper-cased when it is the first character of its token or follows a
  character that is not a letter, and lower-cased when it follows a letter.
\<close>

definition is_letter :: "nat \<Rightarrow> bool" where
  "is_letter c \<longleftrightarrow> (65 \<le> c \<and> c \<le> 90) \<or> (97 \<le> c \<and> c \<le> 122)"

definition upper_char :: "nat \<Rightarrow> nat" where
  "upper_char c = (if 97 \<le> c \<and> c \<le> 122 then c - 32 else c)"

definition lower_char :: "nat \<Rightarrow> nat" where
  "lower_char c = (if 65 \<le> c \<and> c \<le> 90 then c + 32 else c)"

definition title_token :: "ustr \<Rightarrow> ustr" where
  "title_token w =
     map (\<lambda>i. if i = 0 \<or> \<not> is_letter (w ! (i - 1)) then upper_char (w ! i)
               else lower_char (w ! i))
       [0..<length w]"

definition token :: "ustr \<Rightarrow> bool" where
  "token w \<longleftrightarrow> w \<noteq> [] \<and> (\<forall>c\<in>set w. \<not> isspace c)"

section \<open>Documents and application state\<close>

text \<open>\<open>d.get(key, default)\<close> on a document that may lack the key.\<close>

definition get_or :: "'a option \<Rightarrow> 'a \<Rightarrow> 'a" where
  "get_or v d = (case v of None \<Rightarrow> d | Some x \<Rightarrow> x)"

text \<open>
  Amounts are Python floats. They are values of a type \<open>'n\<close> of which the definitions
  use the constant 0 and the operations \<open>+\<close> and \<open>-\<close> only, and of which no law of
  arithmetic is assumed; the examples use rational numbers at values that binary
  floating point represents and adds exactly. Times are the readings of
  \<open>datetime.utcnow()\<close>; identifiers (\<open>ObjectId\<close>) are natural numbers.
\<close>

record 'n payment =
  amount :: "'n option"
  p_date :: nat
  p_note :: "ustr option"

record 'n student =
  s_id :: nat
  s_name :: ustr
  s_class :: ustr
  s_contact :: ustr
  total_fee :: "'n option"
  payments :: "'n payment list option"
  created_at :: nat
  updated_at :: nat

record admin =
  a_id :: nat
  username :: "ustr option"
  password_hash :: ustr

datatype 'n details =
    Details_id_name ustr ustr
  | Details_id ustr
  | Details_id_amount ustr 'n

record 'n log_entry =
  action :: string
  details :: "'n details"
  log_by :: "ustr option"
  log_at :: nat

datatype error = ValueError | InvalidId | TypeError | AttributeError

datatype endpoint =
    To_login | To_dashboard | To_students_list | To_add_student | To_edit_student ustr

datatype 'n response = Redirect endpoint | Render_template string "'n student option"

datatype 'n outcome = Raised error | Returned "'n response"

datatype http_method = GET | POST

record request =
  req_method :: http_method
  form :: "string \<Rightarrow> ustr option"

text \<open>
  The collections of the database, the flashed notices of the session as
  (category, message) pairs, the logged-in admin (\<open>None\<close> for an anonymous session), the
  time \<open>datetime.utcnow()\<close> returns during the request and the identifier the store gives
  to the next inserted document.
\<close>

record 'n state =
  students_col :: "'n student list"
  admins_col :: "admin list"
  logs_col :: "'n log_entry list"
  flashes :: "(ustr \<times> ustr) list"
  current_user :: "admin option"
  utcnow :: nat
  next_id :: nat

text \<open>
  The library functions the handlers call are parameters: \<open>float(text)\<close> (\<open>None\<close> when it
  raises \<open>ValueError\<close>), \<open>ObjectId(text)\<close> (\<open>None\<close> when it raises \<open>InvalidId\<close>),
  \<open>str(oid)\<close> and \<open>check_password_hash(hash, password)\<close>.
\<close>

record 'n env =
  py_float :: "ustr \<Rightarrow> 'n option"
  object_id :: "ustr \<Rightarrow> nat option"
  oid_str :: "nat \<Rightarrow> ustr"
  check_password_hash :: "ustr \<Rightarrow> ustr option \<Rightarrow> error + bool"

section \<open>Fee ledger\<close>


section \<open>Handlers\<close>

text \<open>\<open>flash(message, category)\<close> appends a notice to the session.\<close>

definition flash :: "ustr \<Rightarrow> ustr \<Rightarrow> 'n state \<Rightarrow> 'n state" where
  "flash msg category st = st\<lparr>flashes := flashes st @ [(category, msg)]\<rparr>"

definition unauthorized :: "'n state \<Rightarrow> 'n outcome \<times> 'n state" where
  "unauthorized st =
     (Returned (Redirect To_login),
      flash (py ''Please log in to access this page.'') (py ''message'') st)"

text \<open>The decorator \<open>admin_required\<close>.\<close>

definition admin_required ::
  "('n state \<Rightarrow> 'n outcome \<times> 'n state) \<Rightarrow> 'n state \<Rightarrow> 'n outcome \<times> 'n state" where
  "admin_required f st = (if current_user st = None then unauthorized st else f st)"

text \<open>\<open>log_action(act, details)\<close> inserts one entry into the log collection.\<close>

definition log_action :: "string \<Rightarrow> 'n details \<Rightarrow> 'n state \<Rightarrow> 'n state" where
  "log_action act dets st =
     st\<lparr>logs_col := logs_col st @
        [\<lparr>action = act, details = dets,
          log_by = (case current_user st of Some u \<Rightarrow> username u | None \<Rightarrow> Some (py ''system'')),
          log_at = utcnow st\<rparr>]\<rparr>"

text \<open>
  The store operations the handlers use: \<open>find_one\<close> is \<open>List.find\<close> (the first
  document that matches), \<open>update_one\<close> changes and \<open>delete_one\<close> removes the first
  document that matches, and both leave the collection as it is when none does.
\<close>

fun update_one :: "('a \<Rightarrow> bool) \<Rightarrow> ('a \<Rightarrow> 'a) \<Rightarrow> 'a list \<Rightarrow> 'a list" where
  "update_one P f [] = []"
| "update_one P f (d # ds) = (if P d then f d # ds else d # update_one P f ds)"

fun delete_one :: "('a \<Rightarrow> bool) \<Rightarrow> 'a list \<Rightarrow> 'a list" where
  "delete_one P [] = []"
| "delete_one P (d # ds) = (if P d then ds else d # delete_one P ds)"

text \<open>
  \<open>float(request.form.get(key) or 0)\<close>: an absent or empty field gives 0, any other text
  goes to \<open>float\<close>, which may raise \<open>ValueError\<close>.
\<close>

definition float_or_zero :: "('n::zero) env \<Rightarrow> ustr option \<Rightarrow> error + 'n" where
  "float_or_zero env v =
     (case v of
        None \<Rightarrow> Inr 0
      | Some s \<Rightarrow>
          if s = [] then Inr 0
          else (case py_float env s of None \<Rightarrow> Inl ValueError | Some x \<Rightarrow> Inr x))"

text \<open>\<open>login\<close>.\<close>

definition login :: "'n env \<Rightarrow> request \<Rightarrow> 'n state \<Rightarrow> 'n outcome \<times> 'n state" where
  "login env req st =
     (if req_method req = POST then
        let uname = form req ''username'';
            password = form req ''password''
        in case find (\<lambda>a. username a = uname) (admins_col st) of
             None \<Rightarrow>
               (Returned (Redirect To_login), flash (py ''Invalid credentials'') (py ''error'') st)
           | Some admin \<Rightarrow>
               (case check_password_hash env (password_hash admin) password of
                  Inl e \<Rightarrow> (Raised e, st)
                | Inr matches \<Rightarrow>
                    if \<not> matches then
                      (Returned (Redirect To_login),
                       flash (py ''Invalid credentials'') (py ''error'') st)
                    else
                      (Returned (Redirect To_dashboard),
                       flash (py ''Logged in'') (py ''success'')
                         (st\<lparr>current_user := Some admin, flashes := []\<rparr>)))
      else (Returned (Render_template ''login.html'' None), st))"

text \<open>\<open>add_student\<close>. The warning starts with the sign U+26A0.\<close>

definition add_student :: "('n::zero) env \<Rightarrow> request \<Rightarrow> 'n state \<Rightarrow> 'n outcome \<times> 'n state" where
  "add_student env req = admin_required (\<lambda>st.
     if req_method req = POST then
       let name = clean_name (form req ''name'');
           cls = str_strip (get_or (form req ''class'') []);
           contact = str_strip (get_or (form req ''contact'') [])
       in case float_or_zero env (form req ''total_fee'') of
            Inl e \<Rightarrow> (Raised e, st)
          | Inr fee \<Rightarrow>
              (case find (\<lambda>d. s_name d = name \<and> s_class d = cls) (students_col st) of
                 Some existing \<Rightarrow>
                   (Returned (Redirect To_add_student),
                    flash (0x26A0 # py '' A student with this name already exists in this class!'')
                      (py ''warning'') st)
               | None \<Rightarrow>
                   let now = utcnow st;
                       student = \<lparr>s_id = next_id st, s_name = name, s_class = cls,
                                  s_contact = contact, total_fee = Some fee, payments = Some [],
                                  created_at = now, updated_at = now\<rparr>;
                       st1 = st\<lparr>students_col := students_col st @ [student],
                                next_id := Suc (next_id st)\<rparr>;
                       st2 = log_action ''add_student''
                               (Details_id_name (oid_str env (next_id st)) name) st1
                   in (Returned (Redirect To_students_list),
                       flash (py ''Student added'') (py ''success'') st2))
     else (Returned (Render_template ''student_form.html'' None), st))"

text \<open>\<open>edit_student\<close>.\<close>

definition edit_student ::
  "('n::zero) env \<Rightarrow> ustr \<Rightarrow> request \<Rightarrow> 'n state \<Rightarrow> 'n outcome \<times> 'n state" where
  "edit_student env sid req = admin_required (\<lambda>st.
     case object_id env sid of
       None \<Rightarrow> (Raised InvalidId, st)
     | Some oid \<Rightarrow>
         (case find (\<lambda>d. s_id d = oid) (students_col st) of
            None \<Rightarrow>
              (Returned (Redirect To_students_list),
               flash (py ''Student not found'') (py ''error'') st)
          | Some student \<Rightarrow>
              if req_method req = POST then
                let name = clean_name (form req ''name'');
                    cls = str_strip (get_or (form req ''class'') []);
                    contact = str_strip (get_or (form req ''contact'') [])
                in case float_or_zero env (form req ''total_fee'') of
                     Inl e \<Rightarrow> (Raised e, st)
                   | Inr fee \<Rightarrow>
                       (case find (\<lambda>d. s_name d = name \<and> s_class d = cls \<and> s_id d \<noteq> oid)
                               (students_col st) of
                          Some existing \<Rightarrow>
                            (Returned (Redirect (To_edit_student sid)),
                             flash (0x26A0 #
                                 py '' Another student with this name already exists in this class!'')
                               (py ''warning'') st)
                        | None \<Rightarrow>
                            let st1 = st\<lparr>students_col :=
                                  update_one (\<lambda>d. s_id d = oid)
                                    (\<lambda>d. d\<lparr>s_name := name, s_class := cls, s_contact := contact,
                                           total_fee := Some fee, updated_at := utcnow st\<rparr>)
                                    (students_col st)\<rparr>;
                                st2 = log_action ''edit_student'' (Details_id sid) st1
                            in (Returned (Redirect To_students_list),
                                flash (py ''Student updated'') (py ''success'') st2))
              else (Returned (Render_template ''student_form.html'' (Some student)), st)))"

text \<open>\<open>delete_student\<close>.\<close>

definition delete_student :: "'n env \<Rightarrow> ustr \<Rightarrow> 'n state \<Rightarrow> 'n outcome \<times> 'n state" where
  "delete_student env sid = admin_required (\<lambda>st.
     case object_id env sid of
       None \<Rightarrow> (Raised InvalidId, st)
     | Some oid \<Rightarrow>
         let st1 = st\<lparr>students_col := delete_one (\<lambda>d. s_id d = oid) (students_col st)\<rparr>;
             st2 = log_action ''delete_student'' (Details_id sid) st1
         in (Returned (Redirect To_students_list),
             flash (py ''Student deleted'') (py ''success'') st2))"

text \<open>
  \<open>add_payment\<close>. The amount is read inside \<open>try\<close>; \<open>except ValueError\<close> sets it to 0.
\<close>

definition payment_amount :: "('n::zero) env \<Rightarrow> request \<Rightarrow> error + 'n" where
  "payment_amount env req =
     (case float_or_zero env (form req ''amount'') of
        Inl e \<Rightarrow> if e = ValueError then Inr 0 else Inl e
      | Inr x \<Rightarrow> Inr x)"

definition add_payment ::
  "('n::zero) env \<Rightarrow> ustr \<Rightarrow> request \<Rightarrow> 'n state \<Rightarrow> 'n outcome \<times> 'n state" where
  "add_payment env sid req = admin_required (\<lambda>st.
     case payment_amount env req of
       Inl e \<Rightarrow> (Raised e, st)
     | Inr amt \<Rightarrow>
         let payment = \<lparr>amount = Some amt, p_date = utcnow st, p_note = form req ''note''\<rparr>
         in (case object_id env sid of
               None \<Rightarrow> (Raised InvalidId, st)
             | Some oid \<Rightarrow>
                 let st1 = st\<lparr>students_col :=
                       update_one (\<lambda>d. s_id d = oid)
                         (\<lambda>d. d\<lparr>payments := Some (get_or (payments d) [] @ [payment]),
                                updated_at := utcnow st\<rparr>)
                         (students_col st)\<rparr>;
                     st2 = log_action ''add_payment'' (Details_id_amount sid amt) st1
                 in (Returned (Redirect (To_edit_student sid)),
                     flash (py ''Payment recorded'') (py ''success'') st2)))"

section \<open>An example installation\<close>

text \<open>
  One admin, one student and library functions given by small tables, for the examples
  that follow the theorems: \<open>float\<close> accepts the three texts listed and rejects any other,
  \<open>ObjectId\<close> accepts two 24-digit hexadecimal texts, and the password check compares
  with the stored text and, as the \<open>password.encode()\<close> of werkzeug's
  \<open>check_password_hash\<close> does, raises \<open>AttributeError\<close> when the password is \<open>None\<close>.
\<close>

definition example_env :: "rat env" where
  "example_env =
     \<lparr>py_float = map_of [(py ''1000'', 1000), (py ''300'', 300), (py ''1200.50'', 2401 / 2)],
      object_id = map_of [(py ''64b7f3a2c9e1d4f5a6b7c801'', 1), (py ''64b7f3a2c9e1d4f5a6b7c802'', 2)],
      oid_str = (\<lambda>n. if n = 1 then py ''64b7f3a2c9e1d4f5a6b7c801''
                      else py ''64b7f3a2c9e1d4f5a6b7c802''),
      check_password_hash =
        (\<lambda>h p. case p of None \<Rightarrow> Inl AttributeError | Some t \<Rightarrow> Inr (t = h))\<rparr>"

definition example_admin :: admin where
  "example_admin = \<lparr>a_id = 0, username = Some (py ''admin''), password_hash = py ''s3cret''\<rparr>"

definition john_doe :: "rat student" where
  "john_doe =
     \<lparr>s_id = 1, s_name = py ''John Doe'', s_class = py ''5'', s_contact = py ''555-0100'',
      total_fee = Some 1000,
      payments = Some [\<lparr>amount = Some 300, p_date = 10, p_note = None\<rparr>,
                       \<lparr>amount = Some 200, p_date = 20, p_note = Some (py ''cash'')\<rparr>],
      created_at = 5, updated_at = 20\<rparr>"

definition example_state :: "rat state" where
  "example_state =
     \<lparr>students_col = [john_doe], admins_col = [example_admin], logs_col = [], flashes = [],
      current_user = Some example_admin, utcnow = 100, next_id = 2\<rparr>"

definition post :: "(string \<times> ustr) list \<Rightarrow> request" where
  "post kvs = \<lparr>req_method = POST, form = map_of kvs\<rparr>"

section \<open>Properties of the text functions\<close>

lemma py_space: "py '' '' = [32]" by (simp add: py_def)

lemma isspace_32: "isspace 32" by (simp add: isspace_def)

lemma totitle_space: "isspace c \<Longrightarrow> totitle_full c = [c]"
  by (auto simp: isspace_def totitle_full_def)
lemma tolower_space: "isspace c \<Longrightarrow> tolower_full c = [c]"
  by (auto simp: isspace_def tolower_full_def)
lemma iscased_space: "isspace c \<Longrightarrow> \<not> iscased c"
  by (auto simp: isspace_def iscased_def)

lemma title_from_append:
  "title_from p (xs @ ys) = title_from p xs @ title_from (if xs = [] then p else iscased (last xs)) ys"
  by (induction xs arbitrary: p) auto

lemma title_from_sep:
  "title_from p (x @ 32 # rest) = title_from p x @ 32 # title_from False rest"
  using iscased_space[OF isspace_32] totitle_space[OF isspace_32] tolower_space[OF isspace_32]
  by (simp add: title_from_append)

lemma title_join:
  "title_from False (str_join [32] ts) = str_join [32] (map (title_from False) ts)"
  by (induction "[32::nat]" ts rule: str_join.induct) (simp_all add: title_from_sep)

lemma split_Nil: "str_split [] = []" by (simp add: str_split.simps)

lemma split_tokens: "w \<in> set (str_split s) \<Longrightarrow> w \<noteq> [] \<and> (\<forall>c\<in>set w. \<not> isspace c)"
proof (induction s rule: str_split.induct)
  case (1 s)
  let ?r = "dropWhile isspace s"
  show ?case
  proof (cases "?r = []")
    case True
    with "1.prems" show ?thesis by (simp add: str_split.simps[of s])
  next
    case False
    then obtain c cs where rc: "?r = c # cs" by (cases ?r) auto
    then have nc: "\<not> isspace c" by (metis hd_dropWhile list.sel(1) False)
    have "str_split s = takeWhile (\<lambda>c. \<not> isspace c) ?r # str_split (dropWhile (\<lambda>c. \<not> isspace c) ?r)"
      using False by (subst str_split.simps) (simp add: Let_def)
    with "1.prems" have "w = takeWhile (\<lambda>c. \<not> isspace c) ?r \<or> w \<in> set (str_split (dropWhile (\<lambda>c. \<not> isspace c) ?r))"
      by simp
    then show ?thesis
    proof
      assume w: "w = takeWhile (\<lambda>c. \<not> isspace c) ?r"
      then have "w \<noteq> []" using rc nc by simp
      moreover have "\<forall>c\<in>set w. \<not> isspace c" using w by (auto dest: set_takeWhileD)
      ultimately show ?thesis by simp
    next
      assume "w \<in> set (str_split (dropWhile (\<lambda>c. \<not> isspace c) ?r))"
      with "1.IH"[OF refl False] show ?thesis by simp
    qed
  qed
qed

lemma split_token_sep:
  assumes "token w"
  shows "str_split (w @ 32 # rest) = w # str_split rest"
proof -
  from assms obtain c cs where w: "w = c # cs" and nc: "\<not> isspace c" and all: "\<forall>c\<in>set w. \<not> isspace c"
    by (cases w) (auto simp: token_def)
  have d: "dropWhile isspace (w @ 32 # rest) = w @ 32 # rest" using w nc by simp
  have t: "takeWhile (\<lambda>c. \<not> isspace c) (w @ 32 # rest) = w"
    using all isspace_32 by (simp add: takeWhile_append)
  have dd: "dropWhile (\<lambda>c. \<not> isspace c) (w @ 32 # rest) = 32 # rest"
    using all isspace_32 by (simp add: dropWhile_append)
  have s32: "str_split (32 # rest) = str_split rest"
    using isspace_32 by (simp add: str_split.simps[of "32 # rest"] str_split.simps[of rest])
  have "w @ 32 # rest \<noteq> []" by simp
  then show ?thesis
    by (subst str_split.simps) (simp only: d t dd s32 Let_def if_False)
qed

lemma split_token: assumes "token w" shows "str_split w = [w]"
proof -
  from assms obtain c cs where w: "w = c # cs" and nc: "\<not> isspace c" and all: "\<forall>c\<in>set w. \<not> isspace c"
    by (cases w) (auto simp: token_def)
  have d: "dropWhile isspace w = w" using w nc by simp
  have t: "takeWhile (\<lambda>c. \<not> isspace c) w = w" using all by simp
  have dd: "dropWhile (\<lambda>c. \<not> isspace c) w = []" using all by simp
  have "w \<noteq> []" using w by simp
  then show ?thesis
    by (subst str_split.simps) (simp only: d t dd split_Nil Let_def if_False)
qed

lemma split_join: "\<forall>w\<in>set ts. token w \<Longrightarrow> str_split (str_join [32] ts) = ts"
  by (induction "[32::nat]" ts rule: str_join.induct) (simp_all add: split_Nil split_token split_token_sep)

lemma ascii_Cons: "ascii_text (c # cs) \<longleftrightarrow> c < 128 \<and> ascii_text cs"
  by (simp add: ascii_text_def)
lemma ascii_Nil: "ascii_text []" by (simp add: ascii_text_def)

lemma ascii_totitle: "c < 128 \<Longrightarrow> totitle_full c = [upper_char c]"
  by (simp add: totitle_full_def upper_char_def)
lemma ascii_tolower: "c < 128 \<Longrightarrow> tolower_full c = [lower_char c]"
  by (simp add: tolower_full_def lower_char_def)
lemma ascii_iscased: "c < 128 \<Longrightarrow> iscased c = is_letter c"
  by (auto simp: iscased_def is_letter_def)

lemma title_from_positions:
  "ascii_text w \<Longrightarrow>
   title_from p w =
     map (\<lambda>i. if (if i = 0 then \<not> p else \<not> is_letter (w ! (i - 1))) then upper_char (w ! i)
               else lower_char (w ! i)) [0..<length w]"
proof (induction w arbitrary: p)
  case Nil
  show ?case by simp
next
  case (Cons c cs)
  then have c: "c < 128" and cs: "ascii_text cs" by (simp_all add: ascii_Cons)
  have "title_from p (c # cs) = (if p then lower_char c else upper_char c) # title_from (is_letter c) cs"
    using c by (simp add: ascii_totitle ascii_tolower ascii_iscased)
  also have "title_from (is_letter c) cs =
     map (\<lambda>i. if (if i = 0 then \<not> is_letter c else \<not> is_letter (cs ! (i - 1))) then upper_char (cs ! i)
               else lower_char (cs ! i)) [0..<length cs]"
    by (rule Cons.IH[OF cs])
  finally have step: "title_from p (c # cs) =
      (if p then lower_char c else upper_char c) #
      map (\<lambda>i. if (if i = 0 then \<not> is_letter c else \<not> is_letter (cs ! (i - 1))) then upper_char (cs ! i)
               else lower_char (cs ! i)) [0..<length cs]" .
  have idx: "[0..<length (c # cs)] = 0 # map Suc [0..<length cs]"
    by (simp add: upt_conv_Cons map_Suc_upt del: upt_Suc)
  show ?case
    unfolding step idx
    by (auto simp: comp_def intro!: map_cong split: nat.splits)
qed

lemma str_title_token: "ascii_text w \<Longrightarrow> str_title w = title_token w"
  unfolding str_title_def title_token_def
  by (subst title_from_positions) (auto intro!: map_cong)

lemma upper_upper: "upper_char (upper_char c) = upper_char c"
  unfolding upper_char_def by (cases "97 \<le> c \<and> c \<le> 122") (simp_all only: if_True if_False, arith)
lemma lower_lower: "lower_char (lower_char c) = lower_char c"
  unfolding lower_char_def by (cases "65 \<le> c \<and> c \<le> 90") (simp_all only: if_True if_False, arith)
lemma letter_upper: "is_letter (upper_char c) = is_letter c"
  unfolding upper_char_def is_letter_def
  by (cases "97 \<le> c \<and> c \<le> 122") (simp_all only: if_True if_False, arith)
lemma letter_lower: "is_letter (lower_char c) = is_letter c"
  unfolding lower_char_def is_letter_def
  by (cases "65 \<le> c \<and> c \<le> 90") (simp_all only: if_True if_False, arith)
lemma ascii_upper: "c < 128 \<Longrightarrow> upper_char c < 128"
  unfolding upper_char_def by (cases "97 \<le> c \<and> c \<le> 122") (simp_all only: if_True if_False, arith)
lemma ascii_lower: "c < 128 \<Longrightarrow> lower_char c < 128"
  unfolding lower_char_def by (cases "65 \<le> c \<and> c \<le> 90") (simp_all only: if_True if_False, arith)

lemma title_from_ascii: "ascii_text w \<Longrightarrow> ascii_text (title_from p w)"
  by (induction w arbitrary: p)
     (simp_all add: ascii_Cons ascii_Nil ascii_totitle ascii_tolower ascii_upper ascii_lower)

lemma title_from_idem: "ascii_text w \<Longrightarrow> title_from p (title_from p w) = title_from p w"
proof (induction w arbitrary: p)
  case Nil
  show ?case by simp
next
  case (Cons c cs)
  then have c: "c < 128" and cs: "ascii_text cs" by (simp_all add: ascii_Cons)
  let ?d = "if p then lower_char c else upper_char c"
  have d: "?d < 128" using c by (simp add: ascii_upper ascii_lower)
  have ld: "is_letter ?d = is_letter c" by (simp add: letter_upper letter_lower)
  have dd: "(if p then lower_char ?d else upper_char ?d) = ?d"
    by (simp add: upper_upper lower_lower)
  have e1: "title_from p (c # cs) = ?d # title_from (is_letter c) cs"
    using c by (simp add: ascii_totitle ascii_tolower ascii_iscased)
  have "title_from p (?d # title_from (is_letter c) cs) =
        (if p then lower_char ?d else upper_char ?d) # title_from (is_letter ?d) (title_from (is_letter c) cs)"
    using d by (simp only: title_from.simps ascii_totitle ascii_tolower ascii_iscased if_distrib[of "\<lambda>x. [x]"], simp)
  also have "\<dots> = ?d # title_from (is_letter c) cs"
    by (simp only: dd ld Cons.IH[OF cs])
  finally show ?case by (simp only: e1)
qed

lemma totitle_nospace: "\<not> isspace c \<Longrightarrow> d \<in> set (totitle_full c) \<Longrightarrow> \<not> isspace d"
proof (cases "97 \<le> c \<and> c \<le> 122")
  case True
  assume "d \<in> set (totitle_full c)"
  with True have "d = c - 32" by (simp add: totitle_full_def)
  with True have "65 \<le> d \<and> d \<le> 90" by arith
  then show ?thesis by (simp add: isspace_def)
next
  case False
  then have "totitle_full c = [c]" by (auto simp: totitle_full_def)
  moreover assume "\<not> isspace c" "d \<in> set (totitle_full c)"
  ultimately show ?thesis by simp
qed

lemma tolower_nospace: "\<not> isspace c \<Longrightarrow> d \<in> set (tolower_full c) \<Longrightarrow> \<not> isspace d"
proof (cases "65 \<le> c \<and> c \<le> 90")
  case True
  assume "d \<in> set (tolower_full c)"
  with True have "d = c + 32" by (simp add: tolower_full_def)
  with True have "97 \<le> d \<and> d \<le> 122" by arith
  then show ?thesis by (simp add: isspace_def)
next
  case False
  assume nc: "\<not> isspace c" and d: "d \<in> set (tolower_full c)"
  show ?thesis
  proof (cases "c = 0x130")
    case True
    with d have "d = 0x69 \<or> d = 0x307" by (simp add: tolower_full_def)
    then show ?thesis
    proof
      assume "d = 0x69" then show ?thesis by (simp add: isspace_def)
    next
      assume "d = 0x307" then show ?thesis by (simp add: isspace_def)
    qed
  next
    case c: False
    with False have "tolower_full c = [c]" by (auto simp: tolower_full_def)
    with d nc show ?thesis by simp
  qed
qed

lemma title_from_nospace:
  "\<forall>c\<in>set w. \<not> isspace c \<Longrightarrow> d \<in> set (title_from p w) \<Longrightarrow> \<not> isspace d"
proof (induction w arbitrary: p)
  case Nil
  then show ?case by simp
next
  case (Cons c cs)
  from Cons.prems(2) have "d \<in> set (if p then tolower_full c else totitle_full c) \<or> d \<in> set (title_from (iscased c) cs)"
    by simp
  then show ?case
  proof
    assume "d \<in> set (if p then tolower_full c else totitle_full c)"
    with Cons.prems(1) show ?thesis
      by (cases p) (simp_all add: totitle_nospace[of c d] tolower_nospace[of c d])
  next
    assume "d \<in> set (title_from (iscased c) cs)"
    with Cons.IH[of "iscased c"] Cons.prems(1) show ?thesis by simp
  qed
qed

lemma title_from_nonempty: "w \<noteq> [] \<Longrightarrow> title_from p w \<noteq> []"
  by (cases w) (simp_all add: totitle_full_def tolower_full_def)

lemma title_from_token: "token w \<Longrightarrow> token (title_from p w)"
  unfolding token_def using title_from_nospace[of w _ p] title_from_nonempty[of w p] by blast

lemma ascii_split: "ascii_text s \<Longrightarrow> w \<in> set (str_split s) \<Longrightarrow> ascii_text w"
proof (induction s rule: str_split.induct)
  case (1 s)
  let ?r = "dropWhile isspace s"
  show ?case
  proof (cases "?r = []")
    case True
    with "1.prems" show ?thesis by (simp add: str_split.simps[of s])
  next
    case False
    have ar: "ascii_text ?r" using "1.prems"(1)
      by (auto simp: ascii_text_def list_all_iff dest: set_dropWhileD)
    have "str_split s = takeWhile (\<lambda>c. \<not> isspace c) ?r # str_split (dropWhile (\<lambda>c. \<not> isspace c) ?r)"
      using False by (subst str_split.simps) (simp add: Let_def)
    with "1.prems" have "w = takeWhile (\<lambda>c. \<not> isspace c) ?r \<or> w \<in> set (str_split (dropWhile (\<lambda>c. \<not> isspace c) ?r))"
      by simp
    then show ?thesis
    proof
      assume "w = takeWhile (\<lambda>c. \<not> isspace c) ?r"
      then show ?thesis using ar by (auto simp: ascii_text_def list_all_iff dest: set_takeWhileD)
    next
      assume w: "w \<in> set (str_split (dropWhile (\<lambda>c. \<not> isspace c) ?r))"
      have "ascii_text (dropWhile (\<lambda>c. \<not> isspace c) ?r)" using ar
        by (auto simp: ascii_text_def list_all_iff dest: set_dropWhileD)
      from "1.IH"[OF refl False this w] show ?thesis .
    qed
  qed
qed

lemma concat_split: "concat (str_split s) = filter (\<lambda>c. \<not> isspace c) s"
proof (induction s rule: str_split.induct)
  case (1 s)
  let ?r = "dropWhile isspace s"
  have fs: "filter (\<lambda>c. \<not> isspace c) s = filter (\<lambda>c. \<not> isspace c) ?r"
    by (induction s) auto
  show ?case
  proof (cases "?r = []")
    case True
    then show ?thesis by (simp add: str_split.simps[of s] filter_empty_conv)
  next
    case False
    have e: "str_split s = takeWhile (\<lambda>c. \<not> isspace c) ?r # str_split (dropWhile (\<lambda>c. \<not> isspace c) ?r)"
      using False by (subst str_split.simps) (simp add: Let_def)
    have "filter (\<lambda>c. \<not> isspace c) ?r =
          filter (\<lambda>c. \<not> isspace c) (takeWhile (\<lambda>c. \<not> isspace c) ?r @ dropWhile (\<lambda>c. \<not> isspace c) ?r)"
      by simp
    also have "\<dots> = takeWhile (\<lambda>c. \<not> isspace c) ?r @ filter (\<lambda>c. \<not> isspace c) (dropWhile (\<lambda>c. \<not> isspace c) ?r)"
    proof -
      have "filter (\<lambda>c. \<not> isspace c) (takeWhile (\<lambda>c. \<not> isspace c) ?r) = takeWhile (\<lambda>c. \<not> isspace c) ?r"
        unfolding filter_id_conv by (blast dest: set_takeWhileD)
      then show ?thesis by (simp only: filter_append)
    qed
    finally show ?thesis using "1.IH"[OF refl False] by (simp add: e fs)
  qed
qed

lemma clean_name_tokens:
  "clean_name (Some s) = str_join [32] (map (title_from False) (str_split s))"
  by (simp add: clean_name_def py_space str_title_def title_join split_Nil)

lemma clean_name_idem_ascii:
  assumes "ascii_text s"
  shows "clean_name (Some (clean_name (Some s))) = clean_name (Some s)"
proof -
  let ?ts = "map (title_from False) (str_split s)"
  have tok: "\<forall>w\<in>set ?ts. token w"
  proof
    fix w assume "w \<in> set ?ts"
    then obtain v where v: "v \<in> set (str_split s)" and w: "w = title_from False v" by auto
    from split_tokens[OF v] have "token v" by (simp add: token_def)
    with w show "token w" by (simp add: title_from_token)
  qed
  have "str_split (clean_name (Some s)) = ?ts"
    by (simp only: clean_name_tokens split_join[OF tok])
  then have "clean_name (Some (clean_name (Some s))) = str_join [32] (map (title_from False) ?ts)"
    by (simp add: clean_name_tokens[of "clean_name (Some s)"])
  also have "map (title_from False) ?ts = ?ts"
    using ascii_split[OF assms] by (simp add: title_from_idem)
  finally show ?thesis by (simp add: clean_name_tokens[of s])
qed

section \<open>The name normalizer: claims C2 and C8\<close>

lemmas text_eval = clean_name_def py_def str_split.simps Let_def isspace_def str_title_def
  iscased_def totitle_full_def tolower_full_def str_strip_def

text \<open>
  Claim C2, as \<open>clean_name\<close> computes it: a falsy argument gives the empty text; for
  ASCII text the result is the whitespace-separated tokens joined by single spaces, each
  token title-cased so that a letter is upper-cased when it is the first character of the
  token or follows a character that is not a letter (an apostrophe or a hyphen, say) and
  lower-cased when it follows a letter. The tokens are not empty, hold no whitespace and
  together hold the characters of the text that are not whitespace, in order.
\<close>

theorem clean_name_title_case:
  "clean_name None = [] \<and> clean_name (Some []) = [] \<and>
   (ascii_text s \<longrightarrow>
      clean_name (Some s) = str_join (py '' '') (map title_token (str_split s))) \<and>
   (\<forall>w\<in>set (str_split s). w \<noteq> [] \<and> (\<forall>c\<in>set w. \<not> isspace c)) \<and>
   concat (str_split s) = filter (\<lambda>c. \<not> isspace c) s"
proof -
  have a: "clean_name None = []" "clean_name (Some []) = []"
    by (simp_all add: clean_name_def)
  have b: "clean_name (Some s) = str_join (py '' '') (map title_token (str_split s))"
    if asc: "ascii_text s"
  proof -
    have m: "map (title_from False) (str_split s) = map title_token (str_split s)"
      using ascii_split[OF asc] str_title_token by (simp add: str_title_def)
    show ?thesis unfolding clean_name_tokens py_space m by (rule refl)
  qed
  have c: "\<forall>w\<in>set (str_split s). w \<noteq> [] \<and> (\<forall>c\<in>set w. \<not> isspace c)"
    using split_tokens by blast
  from a b c concat_split[of s] show ?thesis by blast
qed

text \<open>The example of the docstring.\<close>

theorem clean_name_title_case_witness:
  "ascii_text (py ''  moHaMmAd   fairoz  '') \<and>
   clean_name (Some (py ''  moHaMmAd   fairoz  '')) = py ''Mohammad Fairoz'' \<and>
   str_join (py '' '') (map title_token (str_split (py ''  moHaMmAd   fairoz  ''))) =
     py ''Mohammad Fairoz''"
proof -
  have asc: "ascii_text (py ''  moHaMmAd   fairoz  '')"
    by (simp add: ascii_text_def py_def)
  have ev: "clean_name (Some (py ''  moHaMmAd   fairoz  '')) = py ''Mohammad Fairoz''"
    by (simp add: text_eval)
  from clean_name_title_case[of "py ''  moHaMmAd   fairoz  ''"] asc ev show ?thesis by simp
qed

text \<open>
  The letter after an apostrophe or a hyphen is upper-cased, not lower-cased.
\<close>

theorem clean_name_apostrophe_counterexample:
  "clean_name (Some (py ''mary o'brien-smith'')) = py ''Mary O'Brien-Smith'' \<and>
   clean_name (Some (py ''mary o'brien-smith'')) \<noteq> py ''Mary O'brien-smith''"
  by (simp add: text_eval)

text \<open>
  Claim C8, for ASCII text: normalizing a normalized name changes nothing.
\<close>

theorem clean_name_idempotent_ascii:
  assumes "\<forall>s. x = Some s \<longrightarrow> ascii_text s"
  shows "clean_name (Some (clean_name x)) = clean_name x"
proof (cases x)
  case None
  then show ?thesis by (simp add: clean_name_def)
next
  case (Some s)
  with assms have "ascii_text s" by simp
  with Some show ?thesis by (simp add: clean_name_idem_ascii)
qed

text \<open>The example of the docstring, normalized twice.\<close>

theorem clean_name_idempotent_ascii_witness:
  "ascii_text (py ''  moHaMmAd   fairoz  '') \<and>
   clean_name (Some (clean_name (Some (py ''  moHaMmAd   fairoz  '')))) =
     clean_name (Some (py ''  moHaMmAd   fairoz  ''))"
proof -
  have h: "ascii_text (py ''  moHaMmAd   fairoz  '')"
    by (simp add: ascii_text_def py_def)
  then have "\<forall>s. Some (py ''  moHaMmAd   fairoz  '') = Some s \<longrightarrow> ascii_text s"
    by simp
  from clean_name_idempotent_ascii[OF this] h show ?thesis by blast
qed

text \<open>
  Outside ASCII the normalizer is not idempotent. Lower-casing U+0130 yields \<open>i\<close> and the
  combining dot U+0307, which is not cased, so a second pass upper-cases the letter
  after it: the name D, U+0130, L, E, K becomes D, i, U+0307, l, e, k and then
  D, i, U+0307, L, e, k.
\<close>

theorem clean_name_idempotent_counterexample:
  "clean_name (Some [0x44, 0x130, 0x4C, 0x45, 0x4B]) = [0x44, 0x69, 0x307, 0x6C, 0x65, 0x6B] \<and>
   clean_name (Some (clean_name (Some [0x44, 0x130, 0x4C, 0x45, 0x4B]))) =
     [0x44, 0x69, 0x307, 0x4C, 0x65, 0x6B] \<and>
   clean_name (Some (clean_name (Some [0x44, 0x130, 0x4C, 0x45, 0x4B]))) \<noteq>
     clean_name (Some [0x44, 0x130, 0x4C, 0x45, 0x4B])"
  by (simp add: text_eval)

section \<open>Properties of the store operations and of the handlers\<close>

lemma update_one_no_match: "\<forall>d\<in>set ds. \<not> P d \<Longrightarrow> update_one P f ds = ds"
  by (induction ds) simp_all

lemma delete_one_no_match: "\<forall>d\<in>set ds. \<not> P d \<Longrightarrow> delete_one P ds = ds"
  by (induction ds) simp_all

lemma map_update_one: "(\<And>d. g (f d) = g d) \<Longrightarrow> map g (update_one P f ds) = map g ds"
  by (induction ds) simp_all

lemma filter_update_one:
  "(\<And>d. P d \<Longrightarrow> P (f d)) \<Longrightarrow>
   filter (\<lambda>d. \<not> P d) (update_one P f ds) = filter (\<lambda>d. \<not> P d) ds"
  by (induction ds) simp_all

lemma find_update_one:
  "(\<And>d. P d \<Longrightarrow> P (f d)) \<Longrightarrow> find P (update_one P f ds) = map_option f (find P ds)"
  by (induction ds) simp_all

lemma float_or_zero_error: "float_or_zero env v = Inl e \<Longrightarrow> e = ValueError"
  by (auto simp: float_or_zero_def split: option.splits if_splits)

lemma payment_amount_total:
  "payment_amount env req =
     Inr (case float_or_zero env (form req ''amount'') of Inl e \<Rightarrow> 0 | Inr x \<Rightarrow> x)"
  by (auto simp: payment_amount_def split: sum.splits dest: float_or_zero_error)

lemma float_or_zero_malformed:
  "s \<noteq> [] \<Longrightarrow> py_float env s = None \<Longrightarrow> float_or_zero env (Some s) = Inl ValueError"
  by (simp add: float_or_zero_def)

lemma admin_required_authenticated:
  "current_user st \<noteq> None \<Longrightarrow> admin_required f st = f st"
  by (auto simp: admin_required_def)

lemma flash_fields [simp]:
  "students_col (flash m c st) = students_col st"
  "logs_col (flash m c st) = logs_col st"
  "admins_col (flash m c st) = admins_col st"
  "flashes (flash m c st) = flashes st @ [(c, m)]"
  "current_user (flash m c st) = current_user st"
  by (simp_all add: flash_def)

lemma log_action_fields [simp]:
  "students_col (log_action a d st) = students_col st"
  "flashes (log_action a d st) = flashes st"
  "current_user (log_action a d st) = current_user st"
  "logs_col (log_action a d st) = logs_col st @
     [\<lparr>action = a, details = d,
       log_by = (case current_user st of Some u \<Rightarrow> username u | None \<Rightarrow> Some (py ''system'')),
       log_at = utcnow st\<rparr>]"
  by (simp_all add: log_action_def)

lemma find_Some_ex: "\<exists>d\<in>set ds. P d \<Longrightarrow> \<exists>e. find P ds = Some e"
  by (cases "find P ds") (auto simp: find_None_iff)

lemma find_None_all: "\<forall>d\<in>set ds. \<not> P d \<Longrightarrow> find P ds = None"
  by (simp add: find_None_iff)

lemma add_student_malformed_fee:
  assumes "current_user st \<noteq> None" and "req_method req = POST"
    and "form req ''total_fee'' = Some s" and "s \<noteq> []" and "py_float env s = None"
  shows "add_student env req st = (Raised ValueError, st)"
  using assms
  by (simp add: add_student_def admin_required_authenticated float_or_zero_def Let_def)

lemma edit_student_malformed_fee:
  assumes "current_user st \<noteq> None" and "req_method req = POST"
    and "object_id env sid = Some oid"
    and "find (\<lambda>d. s_id d = oid) (students_col st) = Some student"
    and "form req ''total_fee'' = Some s" and "s \<noteq> []" and "py_float env s = None"
  shows "edit_student env sid req st = (Raised ValueError, st)"
  using assms
  by (simp add: edit_student_def admin_required_authenticated float_or_zero_def Let_def)

lemma payment_amount_malformed:
  assumes "form req ''amount'' = Some s" and "py_float env s = None"
  shows "payment_amount env req = Inr 0"
  using assms by (simp add: payment_amount_def float_or_zero_def)

section \<open>The fee ledger: claim C4\<close>


section \<open>Login: claim C7\<close>

text \<open>
  A login with a username no admin has and a login with a known username whose password
  check returns \<open>False\<close> give the same result, response and state alike: the redirect to
  the login page with the one notice \<open>Invalid credentials\<close>.
\<close>

lemma login_mismatch_is_generic:
  assumes "req_method r1 = POST" and "req_method r2 = POST"
    and "find (\<lambda>a. username a = form r1 ''username'') (admins_col st) = None"
    and "find (\<lambda>a. username a = form r2 ''username'') (admins_col st) = Some admin"
    and "check_password_hash env (password_hash admin) (form r2 ''password'') = Inr False"
  shows "login env r1 st = login env r2 st \<and>
         fst (login env r2 st) = Returned (Redirect To_login) \<and>
         flashes (snd (login env r2 st)) =
           flashes st @ [(py ''error'', py ''Invalid credentials'')]"
  using assms by (simp add: login_def)

text \<open>
  When the password check raises, the two attempts differ: for the unknown username the
  check is not reached, for the known one its exception leaves the handler.
\<close>

lemma login_check_raises:
  assumes "req_method r1 = POST" and "req_method r2 = POST"
    and "find (\<lambda>a. username a = form r1 ''username'') (admins_col st) = None"
    and "find (\<lambda>a. username a = form r2 ''username'') (admins_col st) = Some admin"
    and "check_password_hash env (password_hash admin) (form r2 ''password'') = Inl e"
  shows "fst (login env r1 st) = Returned (Redirect To_login) \<and>
         flashes (snd (login env r1 st)) =
           flashes st @ [(py ''error'', py ''Invalid credentials'')] \<and>
         login env r2 st = (Raised e, st)"
  using assms by (simp add: login_def)

text \<open>
  Claim C7 at a login form without the password field: with a username no admin has the
  handler returns the redirect to the login page and the notice \<open>Invalid credentials\<close>;
  with the username of the admin it calls the password check with \<open>None\<close> and the
  exception of the check leaves the handler, so the two failed attempts are told apart.
\<close>

theorem login_absent_password_reveals_username:
  "fst (login example_env (post [(''username'', py ''nobody'')]) example_state) =
     Returned (Redirect To_login) \<and>
   flashes (snd (login example_env (post [(''username'', py ''nobody'')]) example_state)) =
     [(py ''error'', py ''Invalid credentials'')] \<and>
   login example_env (post [(''username'', py ''admin'')]) example_state =
     (Raised AttributeError, example_state) \<and>
   fst (login example_env (post [(''username'', py ''nobody'')]) example_state) \<noteq>
     fst (login example_env (post [(''username'', py ''admin'')]) example_state)"
proof -
  let ?r1 = "post [(''username'', py ''nobody'')]"
  let ?r2 = "post [(''username'', py ''admin'')]"
  have m: "req_method ?r1 = POST" "req_method ?r2 = POST" by (simp_all add: post_def)
  have u1: "find (\<lambda>a. username a = form ?r1 ''username'') (admins_col example_state) = None"
    by (simp add: post_def example_state_def example_admin_def py_def)
  have u2: "find (\<lambda>a. username a = form ?r2 ''username'') (admins_col example_state) =
      Some example_admin"
    by (simp add: post_def example_state_def example_admin_def py_def)
  have pw: "check_password_hash example_env (password_hash example_admin)
      (form ?r2 ''password'') = Inl AttributeError"
    by (simp add: post_def example_env_def)
  from login_check_raises[OF m u1 u2 pw] show ?thesis
    by (simp add: example_state_def)
qed

text \<open>
  With both fields present, an unknown username and a wrong password for the admin of the
  example give the same result.
\<close>

lemma login_mismatch_is_generic_example:
  "login example_env (post [(''username'', py ''nobody''), (''password'', py ''s3cret'')]) example_state =
   login example_env (post [(''username'', py ''admin''), (''password'', py ''guess'')]) example_state \<and>
   fst (login example_env (post [(''username'', py ''admin''), (''password'', py ''guess'')]) example_state) =
     Returned (Redirect To_login) \<and>
   flashes (snd (login example_env (post [(''username'', py ''admin''), (''password'', py ''guess'')]) example_state)) =
     [(py ''error'', py ''Invalid credentials'')]"
proof -
  let ?r1 = "post [(''username'', py ''nobody''), (''password'', py ''s3cret'')]"
  let ?r2 = "post [(''username'', py ''admin''), (''password'', py ''guess'')]"
  have m: "req_method ?r1 = POST" "req_method ?r2 = POST" by (simp_all add: post_def)
  have u1: "find (\<lambda>a. username a = form ?r1 ''username'') (admins_col example_state) = None"
    by (simp add: post_def example_state_def example_admin_def py_def)
  have u2: "find (\<lambda>a. username a = form ?r2 ''username'') (admins_col example_state) = Some example_admin"
    by (simp add: post_def example_state_def example_admin_def py_def)
  have pw: "check_password_hash example_env (password_hash example_admin) (form ?r2 ''password'') = Inr False"
    by (simp add: post_def example_env_def example_admin_def py_def)
  from login_mismatch_is_generic[OF m u1 u2 pw] show ?thesis
    by (simp add: example_state_def)
qed

section \<open>Identifiers that are not valid or match no student: claims C9, C6 and C10\<close>

text \<open>
  Claim C9: for a logged-in admin and a path segment that \<open>ObjectId\<close> rejects, the edit,
  delete and add-payment handlers raise \<open>InvalidId\<close> and change nothing; they produce
  neither the not-found notice nor a silent success.
\<close>

theorem invalid_id_raises:
  assumes "current_user st \<noteq> None" and "object_id env sid = None"
  shows "edit_student env sid req st = (Raised InvalidId, st) \<and>
         delete_student env sid st = (Raised InvalidId, st) \<and>
         add_payment env sid req st = (Raised InvalidId, st)"
  using assms
  by (simp add: edit_student_def delete_student_def add_payment_def admin_required_authenticated
      payment_amount_total)

text \<open>The path segment \<open>42\<close> is no identifier.\<close>

theorem invalid_id_raises_witness:
  "current_user example_state \<noteq> None \<and> object_id example_env (py ''42'') = None \<and>
   edit_student example_env (py ''42'') (post []) example_state = (Raised InvalidId, example_state) \<and>
   delete_student example_env (py ''42'') example_state = (Raised InvalidId, example_state) \<and>
   add_payment example_env (py ''42'') (post [(''amount'', py ''300'')]) example_state =
     (Raised InvalidId, example_state)"
proof -
  have a: "current_user example_state \<noteq> None" by (simp add: example_state_def)
  have b: "object_id example_env (py ''42'') = None" by (simp add: example_env_def py_def)
  from invalid_id_raises[OF a b, of "post []"]
       invalid_id_raises[OF a b, of "post [(''amount'', py ''300'')]"] a b
  show ?thesis by simp
qed

text \<open>
  Claim C6: for a logged-in admin and a well-formed identifier that no stored student
  has, delete and add-payment change no student document and take the success path: they
  return their redirect, with the confirming notice, and raise nothing.
\<close>

theorem missing_id_is_silent_noop:
  assumes "current_user st \<noteq> None" and "object_id env sid = Some oid"
    and "\<forall>d\<in>set (students_col st). s_id d \<noteq> oid"
  shows "fst (delete_student env sid st) = Returned (Redirect To_students_list) \<and>
         students_col (snd (delete_student env sid st)) = students_col st \<and>
         flashes (snd (delete_student env sid st)) =
           flashes st @ [(py ''success'', py ''Student deleted'')] \<and>
         fst (add_payment env sid req st) = Returned (Redirect (To_edit_student sid)) \<and>
         students_col (snd (add_payment env sid req st)) = students_col st \<and>
         flashes (snd (add_payment env sid req st)) =
           flashes st @ [(py ''success'', py ''Payment recorded'')]"
  using assms
  by (simp add: delete_student_def add_payment_def admin_required_authenticated
      payment_amount_total Let_def update_one_no_match delete_one_no_match)

text \<open>An identifier that is well-formed and not in the store of the example.\<close>

theorem missing_id_is_silent_noop_witness:
  "current_user example_state \<noteq> None \<and>
   object_id example_env (py ''64b7f3a2c9e1d4f5a6b7c802'') = Some 2 \<and>
   list_all (\<lambda>d. s_id d \<noteq> 2) (students_col example_state) \<and>
   fst (delete_student example_env (py ''64b7f3a2c9e1d4f5a6b7c802'') example_state) =
     Returned (Redirect To_students_list) \<and>
   students_col (snd (delete_student example_env (py ''64b7f3a2c9e1d4f5a6b7c802'') example_state)) =
     [john_doe] \<and>
   fst (add_payment example_env (py ''64b7f3a2c9e1d4f5a6b7c802'') (post [(''amount'', py ''300'')])
          example_state) = Returned (Redirect (To_edit_student (py ''64b7f3a2c9e1d4f5a6b7c802''))) \<and>
   students_col (snd (add_payment example_env (py ''64b7f3a2c9e1d4f5a6b7c802'')
          (post [(''amount'', py ''300'')]) example_state)) = [john_doe]"
proof -
  have a: "current_user example_state \<noteq> None" by (simp add: example_state_def)
  have b: "object_id example_env (py ''64b7f3a2c9e1d4f5a6b7c802'') = Some 2"
    by (simp add: example_env_def py_def)
  have c: "\<forall>d\<in>set (students_col example_state). s_id d \<noteq> 2"
    by (simp add: example_state_def john_doe_def)
  have s: "students_col example_state = [john_doe]" by (simp add: example_state_def)
  from missing_id_is_silent_noop[OF a b c, of "post [(''amount'', py ''300'')]"] a b c s
  show ?thesis by (simp add: list_all_iff)
qed

text \<open>
  Claim C10: in the same situation the handlers still append their entry to the audit
  log (\<open>delete_student\<close>, \<open>add_payment\<close>) and flash the success notice, although no
  document changed.
\<close>

theorem missing_id_is_logged:
  assumes "current_user st = Some u" and "object_id env sid = Some oid"
    and "\<forall>d\<in>set (students_col st). s_id d \<noteq> oid"
  shows "students_col (snd (delete_student env sid st)) = students_col st \<and>
         logs_col (snd (delete_student env sid st)) =
           logs_col st @ [\<lparr>action = ''delete_student'', details = Details_id sid,
                            log_by = username u, log_at = utcnow st\<rparr>] \<and>
         flashes (snd (delete_student env sid st)) =
           flashes st @ [(py ''success'', py ''Student deleted'')] \<and>
         students_col (snd (add_payment env sid req st)) = students_col st \<and>
         logs_col (snd (add_payment env sid req st)) =
           logs_col st @
             [\<lparr>action = ''add_payment'',
               details = Details_id_amount sid
                 (case float_or_zero env (form req ''amount'') of Inl e \<Rightarrow> 0 | Inr x \<Rightarrow> x),
               log_by = username u, log_at = utcnow st\<rparr>] \<and>
         flashes (snd (add_payment env sid req st)) =
           flashes st @ [(py ''success'', py ''Payment recorded'')]"
  using assms
  by (simp add: delete_student_def add_payment_def admin_required_authenticated
      payment_amount_total Let_def update_one_no_match delete_one_no_match)

text \<open>The log of the example is empty before and holds the one entry after.\<close>

theorem missing_id_is_logged_witness:
  "current_user example_state = Some example_admin \<and>
   object_id example_env (py ''64b7f3a2c9e1d4f5a6b7c802'') = Some 2 \<and>
   list_all (\<lambda>d. s_id d \<noteq> 2) (students_col example_state) \<and>
   students_col (snd (delete_student example_env (py ''64b7f3a2c9e1d4f5a6b7c802'') example_state)) =
     [john_doe] \<and>
   map action (logs_col (snd (delete_student example_env (py ''64b7f3a2c9e1d4f5a6b7c802'')
     example_state))) = [''delete_student''] \<and>
   map action (logs_col (snd (add_payment example_env (py ''64b7f3a2c9e1d4f5a6b7c802'')
     (post [(''amount'', py ''300'')]) example_state))) = [''add_payment'']"
proof -
  have a: "current_user example_state = Some example_admin" by (simp add: example_state_def)
  have b: "object_id example_env (py ''64b7f3a2c9e1d4f5a6b7c802'') = Some 2"
    by (simp add: example_env_def py_def)
  have c: "\<forall>d\<in>set (students_col example_state). s_id d \<noteq> 2"
    by (simp add: example_state_def john_doe_def)
  have s: "students_col example_state = [john_doe]" "logs_col example_state = []"
    by (simp_all add: example_state_def)
  from missing_id_is_logged[OF a b c, of "post [(''amount'', py ''300'')]"] a b c s
  show ?thesis by (simp add: list_all_iff)
qed

section \<open>Creating and updating students: claims C1, C3 and C5\<close>

text \<open>
  Creating a student, for a logged-in admin who posts the form: when a stored student has
  the normalized name and the class of the request, no document is added and the log
  stays as it is, and, the fee field being one that \<open>float\<close> accepts, the handler
  returns the redirect to the form with the duplicate warning; when no stored student has
  that pair, a student with the same name in another class or none, and the fee field is
  one that \<open>float\<close> accepts, the handler returns the redirect to the list and the store
  gains the new document, with no payments and both times set to now.
\<close>

lemma add_student_valid_fee:
  assumes "current_user st \<noteq> None" and "req_method req = POST"
    and "name = clean_name (form req ''name'')"
    and "cls = str_strip (get_or (form req ''class'') [])"
  shows "((\<exists>d\<in>set (students_col st). s_name d = name \<and> s_class d = cls) \<longrightarrow>
            students_col (snd (add_student env req st)) = students_col st \<and>
            logs_col (snd (add_student env req st)) = logs_col st \<and>
            (\<forall>fee. float_or_zero env (form req ''total_fee'') = Inr fee \<longrightarrow>
               add_student env req st =
                 (Returned (Redirect To_add_student),
                  flash (0x26A0 # py '' A student with this name already exists in this class!'')
                    (py ''warning'') st))) \<and>
         ((\<forall>d\<in>set (students_col st). \<not> (s_name d = name \<and> s_class d = cls)) \<longrightarrow>
            (\<forall>fee. float_or_zero env (form req ''total_fee'') = Inr fee \<longrightarrow>
               fst (add_student env req st) = Returned (Redirect To_students_list) \<and>
               students_col (snd (add_student env req st)) =
                 students_col st @
                   [\<lparr>s_id = next_id st, s_name = name, s_class = cls,
                     s_contact = str_strip (get_or (form req ''contact'') []),
                     total_fee = Some fee, payments = Some [],
                     created_at = utcnow st, updated_at = utcnow st\<rparr>]))"
proof (intro conjI impI allI)
  assume dup: "\<exists>d\<in>set (students_col st). s_name d = name \<and> s_class d = cls"
  from find_Some_ex[OF dup] obtain e where
    e: "find (\<lambda>d. s_name d = name \<and> s_class d = cls) (students_col st) = Some e" by blast
  show "students_col (snd (add_student env req st)) = students_col st"
    using assms e
    by (cases "float_or_zero env (form req ''total_fee'')")
       (simp_all add: add_student_def admin_required_authenticated Let_def)
  show "logs_col (snd (add_student env req st)) = logs_col st"
    using assms e
    by (cases "float_or_zero env (form req ''total_fee'')")
       (simp_all add: add_student_def admin_required_authenticated Let_def)
  fix fee assume "float_or_zero env (form req ''total_fee'') = Inr fee"
  then show "add_student env req st =
      (Returned (Redirect To_add_student),
       flash (0x26A0 # py '' A student with this name already exists in this class!'')
         (py ''warning'') st)"
    using assms e by (simp add: add_student_def admin_required_authenticated Let_def)
next
  fix fee
  assume nodup: "\<forall>d\<in>set (students_col st). \<not> (s_name d = name \<and> s_class d = cls)"
    and fee: "float_or_zero env (form req ''total_fee'') = Inr fee"
  from find_None_all[OF nodup]
  have n: "find (\<lambda>d. s_name d = name \<and> s_class d = cls) (students_col st) = None" .
  show "fst (add_student env req st) = Returned (Redirect To_students_list)"
    using assms n fee by (simp add: add_student_def admin_required_authenticated Let_def)
  show "students_col (snd (add_student env req st)) =
      students_col st @
        [\<lparr>s_id = next_id st, s_name = name, s_class = cls,
          s_contact = str_strip (get_or (form req ''contact'') []),
          total_fee = Some fee, payments = Some [],
          created_at = utcnow st, updated_at = utcnow st\<rparr>]"
    using assms n fee by (simp add: add_student_def admin_required_authenticated Let_def)
qed

text \<open>
  With John Doe stored in class 5, a request for \<open>john DOE\<close> in class 5 is rejected
  and one for class 6 is stored.
\<close>

lemma add_student_valid_fee_example:
  "clean_name (Some (py ''  john   DOE '')) = py ''John Doe'' \<and>
   str_strip (py '' 5 '') = py ''5'' \<and>
   fst (add_student example_env
     (post [(''name'', py ''  john   DOE ''), (''class'', py '' 5 ''), (''total_fee'', py ''1000'')])
     example_state) = Returned (Redirect To_add_student) \<and>
   students_col (snd (add_student example_env
     (post [(''name'', py ''  john   DOE ''), (''class'', py '' 5 ''), (''total_fee'', py ''1000'')])
     example_state)) = [john_doe] \<and>
   fst (add_student example_env
     (post [(''name'', py ''  john   DOE ''), (''class'', py ''6''), (''total_fee'', py ''1000'')])
     example_state) = Returned (Redirect To_students_list) \<and>
   map (\<lambda>d. (s_name d, s_class d, total_fee d, payments d))
     (students_col (snd (add_student example_env
       (post [(''name'', py ''  john   DOE ''), (''class'', py ''6''), (''total_fee'', py ''1000'')])
       example_state))) =
     [(py ''John Doe'', py ''5'', Some 1000, payments john_doe),
      (py ''John Doe'', py ''6'', Some 1000, Some [])]"
proof -
  let ?a = "post [(''name'', py ''  john   DOE ''), (''class'', py '' 5 ''), (''total_fee'', py ''1000'')]"
  let ?b = "post [(''name'', py ''  john   DOE ''), (''class'', py ''6''), (''total_fee'', py ''1000'')]"
  have auth: "current_user example_state \<noteq> None" by (simp add: example_state_def)
  have m: "req_method ?a = POST" "req_method ?b = POST" by (simp_all add: post_def)
  have nm: "clean_name (Some (py ''  john   DOE '')) = py ''John Doe''" by (simp add: text_eval)
  have c5: "str_strip (py '' 5 '') = py ''5''" by (simp add: text_eval)
  have c6: "str_strip (py ''6'') = py ''6''" by (simp add: text_eval)
  have na: "py ''John Doe'' = clean_name (form ?a ''name'')"
    and nb: "py ''John Doe'' = clean_name (form ?b ''name'')"
    using nm by (simp_all add: post_def)
  have ca: "py ''5'' = str_strip (get_or (form ?a ''class'') [])"
    and cb: "py ''6'' = str_strip (get_or (form ?b ''class'') [])"
    using c5 c6 by (simp_all add: post_def get_or_def)
  have s: "students_col example_state = [john_doe]" by (simp add: example_state_def)
  have dup: "\<exists>d\<in>set (students_col example_state). s_name d = py ''John Doe'' \<and> s_class d = py ''5''"
    by (simp add: s john_doe_def)
  have nodup: "\<forall>d\<in>set (students_col example_state). \<not> (s_name d = py ''John Doe'' \<and> s_class d = py ''6'')"
    by (simp add: s john_doe_def py_def)
  have fa: "float_or_zero example_env (form ?a ''total_fee'') = Inr 1000"
    and fb: "float_or_zero example_env (form ?b ''total_fee'') = Inr 1000"
    by (simp_all add: float_or_zero_def post_def example_env_def py_def)
  from add_student_valid_fee[OF auth m(1) na ca, of example_env] dup fa
  have ra: "add_student example_env ?a example_state =
      (Returned (Redirect To_add_student),
       flash (0x26A0 # py '' A student with this name already exists in this class!'')
         (py ''warning'') example_state)" by blast
  from add_student_valid_fee[OF auth m(2) nb cb, of example_env] nodup fb
  have rb: "fst (add_student example_env ?b example_state) = Returned (Redirect To_students_list)"
      "students_col (snd (add_student example_env ?b example_state)) =
         students_col example_state @
           [\<lparr>s_id = next_id example_state, s_name = py ''John Doe'', s_class = py ''6'',
             s_contact = str_strip (get_or (form ?b ''contact'') []),
             total_fee = Some 1000, payments = Some [],
             created_at = utcnow example_state, updated_at = utcnow example_state\<rparr>]"
    by blast+
  show ?thesis
    unfolding ra rb by (simp add: nm c5 s) (simp add: john_doe_def)
qed

text \<open>
  Updating a student, for a logged-in admin who posts the form for a stored student: the
  payments, the creation time and the identifier of every document stay as they are, and
  so does every other document; on a conflict with another document of the same
  normalized name and class nothing is persisted; without one, and the fee field being
  one that \<open>float\<close> accepts, the document is the old one with name, class, contact and
  fee overwritten and \<open>updated_at\<close> set to now.
\<close>

lemma edit_student_effect:
  assumes "current_user st \<noteq> None" and "req_method req = POST"
    and "object_id env sid = Some oid"
    and "find (\<lambda>d. s_id d = oid) (students_col st) = Some student"
    and "name = clean_name (form req ''name'')"
    and "cls = str_strip (get_or (form req ''class'') [])"
    and "contact = str_strip (get_or (form req ''contact'') [])"
    and "st' = snd (edit_student env sid req st)"
  shows "map payments (students_col st') = map payments (students_col st) \<and>
         map created_at (students_col st') = map created_at (students_col st) \<and>
         map s_id (students_col st') = map s_id (students_col st) \<and>
         filter (\<lambda>d. s_id d \<noteq> oid) (students_col st') =
           filter (\<lambda>d. s_id d \<noteq> oid) (students_col st) \<and>
         ((\<exists>d\<in>set (students_col st). s_name d = name \<and> s_class d = cls \<and> s_id d \<noteq> oid) \<longrightarrow>
            students_col st' = students_col st \<and> logs_col st' = logs_col st) \<and>
         ((\<forall>d\<in>set (students_col st). \<not> (s_name d = name \<and> s_class d = cls \<and> s_id d \<noteq> oid)) \<longrightarrow>
            (\<forall>fee. float_or_zero env (form req ''total_fee'') = Inr fee \<longrightarrow>
               fst (edit_student env sid req st) = Returned (Redirect To_students_list) \<and>
               find (\<lambda>d. s_id d = oid) (students_col st') =
                 Some (student\<lparr>s_name := name, s_class := cls, s_contact := contact,
                               total_fee := Some fee, updated_at := utcnow st\<rparr>)))"
proof -
  let ?dupP = "\<lambda>d. s_name d = name \<and> s_class d = cls \<and> s_id d \<noteq> oid"
  let ?upd = "\<lambda>fee d. d\<lparr>s_name := name, s_class := cls, s_contact := contact,
                          total_fee := Some fee, updated_at := utcnow st\<rparr>"
  have run: "edit_student env sid req st =
      (case float_or_zero env (form req ''total_fee'') of
         Inl e \<Rightarrow> (Raised e, st)
       | Inr fee \<Rightarrow>
           (case find ?dupP (students_col st) of
              Some existing \<Rightarrow>
                (Returned (Redirect (To_edit_student sid)),
                 flash (0x26A0 #
                     py '' Another student with this name already exists in this class!'')
                   (py ''warning'') st)
            | None \<Rightarrow>
                (Returned (Redirect To_students_list),
                 flash (py ''Student updated'') (py ''success'')
                   (log_action ''edit_student'' (Details_id sid)
                      (st\<lparr>students_col :=
                           update_one (\<lambda>d. s_id d = oid) (?upd fee) (students_col st)\<rparr>)))))"
    using assms(1-7)
    by (simp add: edit_student_def admin_required_authenticated Let_def
        split: sum.splits option.splits)
  have cases: "students_col st' = students_col st \<and> logs_col st' = logs_col st \<or>
      (\<exists>fee. float_or_zero env (form req ''total_fee'') = Inr fee \<and>
             find ?dupP (students_col st) = None \<and>
             students_col st' = update_one (\<lambda>d. s_id d = oid) (?upd fee) (students_col st))"
    unfolding assms(8) run
    by (cases "float_or_zero env (form req ''total_fee'')";
        cases "find ?dupP (students_col st)") simp_all
  have frame: "map payments (students_col st') = map payments (students_col st) \<and>
         map created_at (students_col st') = map created_at (students_col st) \<and>
         map s_id (students_col st') = map s_id (students_col st) \<and>
         filter (\<lambda>d. s_id d \<noteq> oid) (students_col st') =
           filter (\<lambda>d. s_id d \<noteq> oid) (students_col st)"
    using cases
    by (auto simp: map_update_one filter_update_one[of "\<lambda>d. s_id d = oid", simplified])
  have conflict: "students_col st' = students_col st \<and> logs_col st' = logs_col st"
    if "\<exists>d\<in>set (students_col st). ?dupP d"
  proof -
    from find_Some_ex[OF that] obtain e where "find ?dupP (students_col st) = Some e" by blast
    with cases show ?thesis by auto
  qed
  have update: "fst (edit_student env sid req st) = Returned (Redirect To_students_list) \<and>
      find (\<lambda>d. s_id d = oid) (students_col st') = Some (?upd fee student)"
    if nodup: "\<forall>d\<in>set (students_col st). \<not> ?dupP d"
      and fee: "float_or_zero env (form req ''total_fee'') = Inr fee" for fee
  proof -
    from find_None_all[OF nodup] have n: "find ?dupP (students_col st) = None" .
    have "find (\<lambda>d. s_id d = oid) (update_one (\<lambda>d. s_id d = oid) (?upd fee) (students_col st)) =
          map_option (?upd fee) (find (\<lambda>d. s_id d = oid) (students_col st))"
      by (rule find_update_one) simp
    then show ?thesis
      unfolding assms(8) run by (simp add: fee n assms(4))
  qed
  from frame conflict update show ?thesis by blast
qed

text \<open>
  An update of the student of the example, and an update that would make a second John
  Doe in class 5.
\<close>

lemma edit_student_effect_example:
  "find (\<lambda>d. s_id d = 1) (students_col (snd (edit_student example_env (py ''64b7f3a2c9e1d4f5a6b7c801'')
      (post [(''name'', py ''johnny  doe''), (''class'', py ''5''), (''contact'', py '' 555-0199 ''),
             (''total_fee'', py ''1200.50'')]) example_state))) =
     Some (john_doe\<lparr>s_name := py ''Johnny Doe'', s_class := py ''5'', s_contact := py ''555-0199'',
                     total_fee := Some (2401 / 2), updated_at := 100\<rparr>) \<and>
   map payments (students_col (snd (edit_student example_env (py ''64b7f3a2c9e1d4f5a6b7c801'')
      (post [(''name'', py ''johnny  doe''), (''class'', py ''5''), (''contact'', py '' 555-0199 ''),
             (''total_fee'', py ''1200.50'')]) example_state))) = [payments john_doe] \<and>
   map created_at (students_col (snd (edit_student example_env (py ''64b7f3a2c9e1d4f5a6b7c801'')
      (post [(''name'', py ''johnny  doe''), (''class'', py ''5''), (''contact'', py '' 555-0199 ''),
             (''total_fee'', py ''1200.50'')]) example_state))) = [5] \<and>
   students_col (snd (edit_student example_env (py ''64b7f3a2c9e1d4f5a6b7c802'')
      (post [(''name'', py ''JOHN DOE''), (''class'', py ''5'')])
      (example_state\<lparr>students_col := [john_doe, john_doe\<lparr>s_id := 2, s_class := py ''6''\<rparr>]\<rparr>))) =
     [john_doe, john_doe\<lparr>s_id := 2, s_class := py ''6''\<rparr>]"
proof -
  let ?sid = "py ''64b7f3a2c9e1d4f5a6b7c801''"
  let ?req = "post [(''name'', py ''johnny  doe''), (''class'', py ''5''),
                    (''contact'', py '' 555-0199 ''), (''total_fee'', py ''1200.50'')]"
  let ?sid2 = "py ''64b7f3a2c9e1d4f5a6b7c802''"
  let ?req2 = "post [(''name'', py ''JOHN DOE''), (''class'', py ''5'')]"
  let ?jd6 = "john_doe\<lparr>s_id := 2, s_class := py ''6''\<rparr>"
  let ?st2 = "example_state\<lparr>students_col := [john_doe, ?jd6]\<rparr>"
  have auth: "current_user example_state \<noteq> None" "current_user ?st2 \<noteq> None"
    by (simp_all add: example_state_def)
  have m: "req_method ?req = POST" "req_method ?req2 = POST" by (simp_all add: post_def)
  have oid: "object_id example_env ?sid = Some 1" "object_id example_env ?sid2 = Some 2"
    by (simp_all add: example_env_def py_def)
  have s: "students_col example_state = [john_doe]" by (simp add: example_state_def)
  have f: "find (\<lambda>d. s_id d = 1) (students_col example_state) = Some john_doe"
    by (simp add: s john_doe_def)
  have f2: "find (\<lambda>d. s_id d = 2) (students_col ?st2) = Some ?jd6"
    by (simp add: john_doe_def)
  have nm: "py ''Johnny Doe'' = clean_name (form ?req ''name'')"
    by (simp add: post_def) (simp add: text_eval)
  have nm2: "py ''John Doe'' = clean_name (form ?req2 ''name'')"
    by (simp add: post_def) (simp add: text_eval)
  have cl: "py ''5'' = str_strip (get_or (form ?req ''class'') [])"
    "py ''5'' = str_strip (get_or (form ?req2 ''class'') [])"
    by (simp_all add: post_def get_or_def) (simp_all add: text_eval)
  have ct: "py ''555-0199'' = str_strip (get_or (form ?req ''contact'') [])"
    by (simp add: post_def get_or_def) (simp add: text_eval)
  have ct2: "[] = str_strip (get_or (form ?req2 ''contact'') [])"
    by (simp add: post_def get_or_def str_strip_def)
  have nodup: "\<forall>d\<in>set (students_col example_state).
      \<not> (s_name d = py ''Johnny Doe'' \<and> s_class d = py ''5'' \<and> s_id d \<noteq> 1)"
    by (simp add: s john_doe_def)
  have dup: "\<exists>d\<in>set (students_col ?st2).
      s_name d = py ''John Doe'' \<and> s_class d = py ''5'' \<and> s_id d \<noteq> 2"
    by (simp add: john_doe_def)
  have fee: "float_or_zero example_env (form ?req ''total_fee'') = Inr (2401 / 2)"
    by (simp add: float_or_zero_def post_def example_env_def py_def)
  have now: "utcnow example_state = 100" by (simp add: example_state_def)
  from edit_student_effect[OF auth(1) m(1) oid(1) f nm cl(1) ct refl] nodup fee
  have a: "find (\<lambda>d. s_id d = 1)
        (students_col (snd (edit_student example_env ?sid ?req example_state))) =
      Some (john_doe\<lparr>s_name := py ''Johnny Doe'', s_class := py ''5'', s_contact := py ''555-0199'',
                      total_fee := Some (2401 / 2), updated_at := utcnow example_state\<rparr>)"
    and b: "map payments (students_col (snd (edit_student example_env ?sid ?req example_state))) =
        map payments (students_col example_state)"
    and c: "map created_at (students_col (snd (edit_student example_env ?sid ?req example_state))) =
        map created_at (students_col example_state)"
    by blast+
  from edit_student_effect[OF auth(2) m(2) oid(2) f2 nm2 cl(2) ct2 refl] dup
  have d: "students_col (snd (edit_student example_env ?sid2 ?req2 ?st2)) = students_col ?st2"
    by blast
  show ?thesis
    unfolding a b c d by (simp add: now s) (simp add: john_doe_def)
qed

text \<open>
  Claim C1 at a fee or amount that \<open>float\<close> rejects: \<open>add_payment\<close> records the amount
  0 and returns its redirect, while \<open>add_student\<close> and \<open>edit_student\<close>, which call
  \<open>float\<close> outside any \<open>try\<close>, raise \<open>ValueError\<close>.
\<close>

theorem malformed_total_fee_raises:
  "add_student example_env
     (post [(''name'', py ''Jane Roe''), (''class'', py ''5''), (''total_fee'', py ''abc'')])
     example_state = (Raised ValueError, example_state) \<and>
   edit_student example_env (py ''64b7f3a2c9e1d4f5a6b7c801'')
     (post [(''name'', py ''John Doe''), (''class'', py ''5''), (''total_fee'', py ''abc'')])
     example_state = (Raised ValueError, example_state) \<and>
   fst (add_payment example_env (py ''64b7f3a2c9e1d4f5a6b7c801'') (post [(''amount'', py ''abc'')])
     example_state) = Returned (Redirect (To_edit_student (py ''64b7f3a2c9e1d4f5a6b7c801''))) \<and>
   map (\<lambda>d. map amount (get_or (payments d) []))
     (students_col (snd (add_payment example_env (py ''64b7f3a2c9e1d4f5a6b7c801'')
        (post [(''amount'', py ''abc'')]) example_state))) = [[Some 300, Some 200, Some 0]]"
proof -
  have auth: "current_user example_state \<noteq> None" by (simp add: example_state_def)
  have bad: "float_or_zero example_env (Some (py ''abc'')) = Inl ValueError"
    by (simp add: float_or_zero_def example_env_def py_def)
  have oid: "object_id example_env (py ''64b7f3a2c9e1d4f5a6b7c801'') = Some 1"
    by (simp add: example_env_def py_def)
  have f: "find (\<lambda>d. s_id d = 1) (students_col example_state) = Some john_doe"
    by (simp add: example_state_def john_doe_def)
  have a: "add_student example_env
     (post [(''name'', py ''Jane Roe''), (''class'', py ''5''), (''total_fee'', py ''abc'')])
     example_state = (Raised ValueError, example_state)"
    using auth bad by (simp add: add_student_def admin_required_authenticated post_def Let_def)
  have e: "edit_student example_env (py ''64b7f3a2c9e1d4f5a6b7c801'')
     (post [(''name'', py ''John Doe''), (''class'', py ''5''), (''total_fee'', py ''abc'')])
     example_state = (Raised ValueError, example_state)"
    using auth bad oid f
    by (simp add: edit_student_def admin_required_authenticated post_def Let_def)
  have amt: "payment_amount example_env (post [(''amount'', py ''abc'')]) = Inr 0"
    using bad by (simp add: payment_amount_def post_def)
  have p: "add_payment example_env (py ''64b7f3a2c9e1d4f5a6b7c801'') (post [(''amount'', py ''abc'')])
      example_state =
    (Returned (Redirect (To_edit_student (py ''64b7f3a2c9e1d4f5a6b7c801''))),
     flash (py ''Payment recorded'') (py ''success'')
       (log_action ''add_payment'' (Details_id_amount (py ''64b7f3a2c9e1d4f5a6b7c801'') 0)
         (example_state\<lparr>students_col :=
            update_one (\<lambda>d. s_id d = 1)
              (\<lambda>d. d\<lparr>payments := Some (get_or (payments d) [] @
                       [\<lparr>amount = Some 0, p_date = utcnow example_state,
                         p_note = form (post [(''amount'', py ''abc'')]) ''note''\<rparr>]),
                     updated_at := utcnow example_state\<rparr>)
              (students_col example_state)\<rparr>)))"
    using auth amt oid by (simp add: add_payment_def admin_required_authenticated Let_def)
  show ?thesis
    unfolding a e p by (simp add: example_state_def john_doe_def get_or_def)
qed

text \<open>
  Claim C3 at a fee that \<open>float\<close> rejects. John Doe is stored in class 5. A request for
  \<open>john DOE\<close> in class 5 and one for class 6, each with the fee \<open>abc\<close>, both raise
  \<open>ValueError\<close> and leave the state as it is: \<open>float\<close> is called before the duplicate
  check, so the first request is not answered with the duplicate warning and the second
  is not stored.
\<close>

theorem add_student_malformed_fee_precedes_duplicate_check:
  "add_student example_env
     (post [(''name'', py ''  john   DOE ''), (''class'', py '' 5 ''), (''total_fee'', py ''abc'')])
     example_state = (Raised ValueError, example_state) \<and>
   add_student example_env
     (post [(''name'', py ''  john   DOE ''), (''class'', py ''6''), (''total_fee'', py ''abc'')])
     example_state = (Raised ValueError, example_state)"
proof -
  let ?a = "post [(''name'', py ''  john   DOE ''), (''class'', py '' 5 ''), (''total_fee'', py ''abc'')]"
  let ?b = "post [(''name'', py ''  john   DOE ''), (''class'', py ''6''), (''total_fee'', py ''abc'')]"
  have auth: "current_user example_state \<noteq> None" by (simp add: example_state_def)
  have m: "req_method ?a = POST" "req_method ?b = POST" by (simp_all add: post_def)
  have f: "form ?a ''total_fee'' = Some (py ''abc'')" "form ?b ''total_fee'' = Some (py ''abc'')"
    by (simp_all add: post_def)
  have ne: "py ''abc'' \<noteq> []" by (simp add: py_def)
  have bad: "py_float example_env (py ''abc'') = None" by (simp add: example_env_def py_def)
  from add_student_malformed_fee[OF auth m(1) f(1) ne bad]
       add_student_malformed_fee[OF auth m(2) f(2) ne bad]
  show ?thesis by (intro conjI)
qed

text \<open>
  Claim C5 at a fee that \<open>float\<close> rejects. An update of the stored John Doe to another
  name, with no conflicting document and the fee \<open>abc\<close>, raises \<open>ValueError\<close> and leaves
  the state as it is: neither name, class, contact nor fee are overwritten and
  \<open>updated_at\<close> is not set.
\<close>

theorem edit_student_malformed_fee_writes_nothing:
  "edit_student example_env (py ''64b7f3a2c9e1d4f5a6b7c801'')
     (post [(''name'', py ''johnny  doe''), (''class'', py ''5''), (''contact'', py '' 555-0199 ''),
            (''total_fee'', py ''abc'')])
     example_state = (Raised ValueError, example_state) \<and>
   students_col example_state = [john_doe] \<and>
   find (\<lambda>d. s_name d = py ''Johnny Doe'' \<and> s_class d = py ''5'' \<and> s_id d \<noteq> 1)
     (students_col example_state) = None"
proof -
  let ?req = "post [(''name'', py ''johnny  doe''), (''class'', py ''5''),
                    (''contact'', py '' 555-0199 ''), (''total_fee'', py ''abc'')]"
  have auth: "current_user example_state \<noteq> None" by (simp add: example_state_def)
  have m: "req_method ?req = POST" by (simp add: post_def)
  have oid: "object_id example_env (py ''64b7f3a2c9e1d4f5a6b7c801'') = Some 1"
    by (simp add: example_env_def py_def)
  have s: "students_col example_state = [john_doe]" by (simp add: example_state_def)
  have fd: "find (\<lambda>d. s_id d = 1) (students_col example_state) = Some john_doe"
    by (simp add: s john_doe_def)
  have f: "form ?req ''total_fee'' = Some (py ''abc'')" by (simp add: post_def)
  have ne: "py ''abc'' \<noteq> []" by (simp add: py_def)
  have bad: "py_float example_env (py ''abc'') = None" by (simp add: example_env_def py_def)
  have nodup: "find (\<lambda>d. s_name d = py ''Johnny Doe'' \<and> s_class d = py ''5'' \<and> s_id d \<noteq> 1)
      (students_col example_state) = None"
    by (simp add: s john_doe_def)
  from edit_student_malformed_fee[OF auth m oid fd f ne bad] s nodup
  show ?thesis by (intro conjI)
qed

end
